theory Spec2Isabelle
  imports Complex_Main "HOL-Library.Sublist"
begin

section \<open>Strings and the two library calls made on every text field\<close>

text \<open>
  A JavaScript string is carried as a \<^typ>\<open>string\<close> holding its UTF-8 bytes, so that
  \<open>===\<close> on strings is equality of lists. Request body fields are text, as a form posts
  them: \<open>req.body\<close> is a map from field names to strings, and an absent field is
  \<open>undefined\<close>. A field that is neither (a number or an array in a JSON body) has no
  \<open>trim\<close> method and is not a value of this type; the chat route, which is the one
  called with JSON, takes a body of JSON values instead.
\<close>

type_synonym body = "string \<rightharpoonup> string"

text \<open>
  \<open>String.prototype.trim\<close> removes the code points of the ECMAScript productions
  WhiteSpace and LineTerminator from both ends. The table lists them in UTF-8:
  U+0009 to U+000D, U+0020, U+00A0, U+1680, U+2000 to U+200A, U+2028, U+2029, U+202F,
  U+205F, U+3000 and U+FEFF.
\<close>

definition WhiteSpace :: "string list" where
  "WhiteSpace =
     [[CHR 0x09], [CHR 0x0A], [CHR 0x0B], [CHR 0x0C], [CHR 0x0D], [CHR 0x20],
      [CHR 0xC2, CHR 0xA0],
      [CHR 0xE1, CHR 0x9A, CHR 0x80],
      [CHR 0xE2, CHR 0x80, CHR 0x80], [CHR 0xE2, CHR 0x80, CHR 0x81],
      [CHR 0xE2, CHR 0x80, CHR 0x82], [CHR 0xE2, CHR 0x80, CHR 0x83],
      [CHR 0xE2, CHR 0x80, CHR 0x84], [CHR 0xE2, CHR 0x80, CHR 0x85],
      [CHR 0xE2, CHR 0x80, CHR 0x86], [CHR 0xE2, CHR 0x80, CHR 0x87],
      [CHR 0xE2, CHR 0x80, CHR 0x88], [CHR 0xE2, CHR 0x80, CHR 0x89],
      [CHR 0xE2, CHR 0x80, CHR 0x8A],
      [CHR 0xE2, CHR 0x80, CHR 0xA8], [CHR 0xE2, CHR 0x80, CHR 0xA9],
      [CHR 0xE2, CHR 0x80, CHR 0xAF],
      [CHR 0xE2, CHR 0x81, CHR 0x9F],
      [CHR 0xE3, CHR 0x80, CHR 0x80],
      [CHR 0xEF, CHR 0xBB, CHR 0xBF]]"

text \<open>The number of bytes of the white-space code point a string starts with, or 0.\<close>

definition leading :: "string list \<Rightarrow> string \<Rightarrow> nat" where
  "leading table s = (case List.find (\<lambda>w. prefix w s) table of None \<Rightarrow> 0 | Some w \<Rightarrow> length w)"

function strip :: "string list \<Rightarrow> string \<Rightarrow> string" where
  "strip table s = (if leading table s = 0 then s else strip table (drop (leading table s) s))"
  by pat_completeness auto
termination
proof (relation "measure (\<lambda>(table, s). length s)")
  fix table :: "string list" and s :: string
  assume "leading table s \<noteq> 0"
  moreover have "leading table s \<le> length s"
    by (auto simp: leading_def find_Some_iff prefix_length_le split: option.splits)
  ultimately show "((table, drop (leading table s) s), (table, s)) \<in> measure (\<lambda>(table, s). length s)"
    by simp
qed simp

declare strip.simps [simp del]

definition trimStart :: "string \<Rightarrow> string" where
  "trimStart s = strip WhiteSpace s"

definition trimEnd :: "string \<Rightarrow> string" where
  "trimEnd s = rev (strip (map rev WhiteSpace) (rev s))"

definition trim :: "string \<Rightarrow> string" where
  "trim s = trimEnd (trimStart s)"

text \<open>
  The sanitizer \<open>xss\<close> is the package of that name, which is not part of this repository:
  every handler that calls it takes it as its first argument, and nothing is assumed of it
  beyond what a theorem says. The expression \<open>v ? xss(v.trim()) : d\<close> is written on each
  field of each body; the empty string is falsy, as \<open>undefined\<close> is.
\<close>

definition sanitize :: "(string \<Rightarrow> string) \<Rightarrow> string option \<Rightarrow> string \<Rightarrow> string" where
  "sanitize xss v d = (case v of None \<Rightarrow> d | Some s \<Rightarrow> if s = [] then d else xss (trim s))"

text \<open>
  For closed instances of the theorems the sanitizer is instantiated with the escaping
  that \<open>xss\<close> applies to text outside tags: \<open><\<close> and \<open>>\<close> become entities.
\<close>

fun escapeHtml :: "string \<Rightarrow> string" where
  "escapeHtml [] = []"
| "escapeHtml (c # cs) =
     (if c = CHR ''<'' then ''&lt;'' @ escapeHtml cs
      else if c = CHR ''>'' then ''&gt;'' @ escapeHtml cs
      else c # escapeHtml cs)"

text \<open>\<open>Array.prototype.join\<close> on an array of strings.\<close>

fun join :: "string \<Rightarrow> string list \<Rightarrow> string" where
  "join sep [] = []"
| "join sep [x] = x"
| "join sep (x # y # ys) = x @ sep @ join sep (y # ys)"

section \<open>The data store (data.js)\<close>

record perf =
  sem :: int
  gpa :: rat

text \<open>
  A user object. The fields after \<open>profilePic\<close> exist on some users only; \<open>None\<close> is a
  missing property. \<open>reportCards\<close> is an object used as a dictionary, kept as the list of
  its entries. The \<open>gpa\<close> literals are kept as the decimals they are written as; no
  handler computes with them.
\<close>

record user =
  roll :: string
  password :: string
  name :: string
  role :: string
  profilePic :: string
  universityRoll :: "string option"
  semester :: "int option"
  college :: "string option"
  performance :: "perf list option"
  reportCards :: "(string \<times> string) list option"
  classAssigned :: "string option"

record book =
  title :: string
  issueDate :: string
  returnDate :: string

record resource =
  type :: string
  subject :: string
  topic :: string
  downloadUrl :: string

record library =
  issuedBooks :: "book list"
  resources :: "resource list"

definition john_doe :: user where
  "john_doe =
     \<lparr>roll = ''22111234'', password = ''pass123'', name = ''John Doe'', role = ''student'',
      profilePic = ''/assets/profile-placeholder.png'',
      universityRoll = Some ''12345623145'', semester = Some 6, college = Some ''ABC College'',
      performance = Some [\<lparr>sem = 1, gpa = 7.2\<rparr>, \<lparr>sem = 2, gpa = 7.5\<rparr>, \<lparr>sem = 3, gpa = 7.8\<rparr>,
                          \<lparr>sem = 4, gpa = 8.0\<rparr>, \<lparr>sem = 5, gpa = 8.2\<rparr>, \<lparr>sem = 6, gpa = 8.5\<rparr>],
      reportCards = Some [(''1'', ''/assets/marksheets/sem1.pdf'')],
      classAssigned = None\<rparr>"

definition admin001 :: user where
  "admin001 =
     \<lparr>roll = ''admin001'', password = ''adminpass'', name = ''System Administrator'',
      role = ''admin'', profilePic = ''/assets/profile-placeholder.png'',
      universityRoll = None, semester = None, college = None, performance = None,
      reportCards = None, classAssigned = None\<rparr>"

definition lib001 :: user where
  "lib001 =
     \<lparr>roll = ''lib001'', password = ''libpass'', name = ''College Librarian'',
      role = ''librarian'', profilePic = ''/assets/profile-placeholder.png'',
      universityRoll = None, semester = None, college = None, performance = None,
      reportCards = None, classAssigned = None\<rparr>"

definition teacher101 :: user where
  "teacher101 =
     \<lparr>roll = ''teacher101'', password = ''teachpass'', name = ''Professor Smith'',
      role = ''teacher'', profilePic = ''/assets/profile-placeholder.png'',
      universityRoll = None, semester = None, college = None, performance = None,
      reportCards = None, classAssigned = Some ''B.Tech 6th Sem''\<rparr>"

text \<open>The array \<open>users\<close> as the module exports it, before any request.\<close>

definition users_init :: "user list" where
  "users_init = [john_doe, admin001, lib001, teacher101]"

definition libraryData :: library where
  "libraryData =
     \<lparr>issuedBooks =
        [\<lparr>title = ''DBMS'', issueDate = ''2025-11-10'', returnDate = ''2025-12-10''\<rparr>,
         \<lparr>title = ''Operating Systems'', issueDate = ''2025-11-15'', returnDate = ''2025-12-15''\<rparr>],
      resources =
        [\<lparr>type = ''Notes'', subject = ''Computer Networks'', topic = ''OSI Model'',
          downloadUrl = ''/assets/ebooks/cn-osi.pdf''\<rparr>,
         \<lparr>type = ''PYQ'', subject = ''Algorithms'', topic = ''Greedy'',
          downloadUrl = ''/assets/ebooks/algo-greedy.pdf''\<rparr>]\<rparr>"

section \<open>Requests, responses and the state between requests (server.js)\<close>

text \<open>
  What a thrown value is: a \<open>TypeError\<close> of the runtime, or whatever the client of the
  completion service rejects with (network, quota), carried by its message.
\<close>

datatype exn = TypeError string | Rejected string

datatype console_entry = ConsoleLog string | ConsoleError string exn

text \<open>
  The state that outlives a request: the array \<open>users\<close>, \<open>req.session.user\<close> of the one
  browser session that is followed, and what was written to the console.
\<close>

record state =
  users :: "user list"
  session_user :: "user option"
  console :: "console_entry list"

record issue =
  studentName :: string
  studentRoll :: string
  books :: "book list"

text \<open>The values handed to a view or serialised by \<open>res.json\<close>.\<close>

datatype val =
    Undefined
  | Null
  | Str string
  | User user
  | Users "user list"
  | Library library
  | Issue issue

text \<open>
  A response: \<open>res.redirect\<close>, \<open>res.status(n).render(view, locals)\<close> (status 200 when
  none is set), \<open>res.status(n).send(text)\<close>, \<open>res.status(n).json(object)\<close>; \<open>Throw\<close> is
  a handler that ends by throwing instead of responding.
\<close>

datatype response =
    Redirect string
  | Render nat string "(string \<times> val) list"
  | Send nat string
  | Json nat "(string \<times> val) list"
  | Throw exn

type_synonym handler = "state \<Rightarrow> body \<Rightarrow> state \<times> response"

definition str_or_undefined :: "string option \<Rightarrow> val" where
  "str_or_undefined v = (case v of None \<Rightarrow> Undefined | Some s \<Rightarrow> Str s)"

definition user_or_undefined :: "user option \<Rightarrow> val" where
  "user_or_undefined v = (case v of None \<Rightarrow> Undefined | Some u \<Rightarrow> User u)"

subsection \<open>The role guard\<close>

text \<open>
  \<open>checkRole(requiredRoles)\<close> is a middleware: it answers the request itself or calls
  \<open>next()\<close>, the rest of the route, which is its second argument here.
\<close>

definition checkRole :: "string list \<Rightarrow> handler \<Rightarrow> handler" where
  "checkRole requiredRoles next st b =
     (case session_user st of
        None \<Rightarrow> (st, Redirect ''/login'')
      | Some u \<Rightarrow>
          let userRole = role u in
          if userRole \<in> set requiredRoles then next st b
          else (st, Render 403 ''home''
                  [(''page'', Str ''home''),
                   (''error'', Str (''Access Denied: You do not have **'' @
                      join '' or '' requiredRoles @ ''** permissions for this page.''))]))"

subsection \<open>Login and logout\<close>

text \<open>The \<open>switch\<close> on the role that ends both \<open>POST /login\<close> and \<open>POST /signup\<close>.\<close>

definition dashboard :: "string \<Rightarrow> string" where
  "dashboard r =
     (if r = ''admin'' then ''/admin/dashboard''
      else if r = ''librarian'' then ''/librarian/control''
      else if r = ''teacher'' then ''/teacher/class''
      else ''/student'')"

definition post_login :: "(string \<Rightarrow> string) \<Rightarrow> handler" where
  "post_login xss st b =
     (let roll' = sanitize xss (b ''roll'') '''';
          password' = sanitize xss (b ''password'') '''';
          st1 = st\<lparr>console := console st @
                  [ConsoleLog (''Attempting login with Roll: ['' @ roll' @ '']'')]\<rparr>
      in case List.find (\<lambda>u. roll u = roll' \<and> password u = password') (users st) of
           Some u \<Rightarrow> (st1\<lparr>session_user := Some u\<rparr>, Redirect (dashboard (role u)))
         | None \<Rightarrow>
             (st1, Render 200 ''login''
                     [(''page'', Str ''login''), (''error'', Str ''Invalid roll or password'')]))"

definition post_logout :: handler where
  "post_logout st b = (st\<lparr>session_user := None\<rparr>, Redirect ''/'')"

subsection \<open>Sign-up\<close>

definition post_signup :: "(string \<Rightarrow> string) \<Rightarrow> handler" where
  "post_signup xss st b =
     (let name' = sanitize xss (b ''name'') '''';
          roll' = sanitize xss (b ''roll'') '''';
          password' = sanitize xss (b ''password'') '''';
          role' = sanitize xss (b ''role'') ''student''
      in case List.find (\<lambda>u. roll u = roll') (users st) of
           Some existingUser \<Rightarrow>
             (st, Render 200 ''signup-form''
                    [(''page'', Str ''signup''), (''selectedRole'', Str role'),
                     (''error'', Str ''Roll number already registered.'')])
         | None \<Rightarrow>
             let newUser0 =
                   \<lparr>roll = roll', password = password', name = name', role = role',
                    profilePic = ''/assets/profile-placeholder.png'',
                    universityRoll = None, semester = None, college = None,
                    performance = None, reportCards = None, classAssigned = None\<rparr>;
                 newUser =
                   (if role' = ''student'' then
                      newUser0\<lparr>universityRoll := Some (sanitize xss (b ''universityRoll'') ''''),
                               semester := Some 1, college := Some ''N/A'',
                               performance := Some [], reportCards := Some []\<rparr>
                    else if role' = ''teacher'' then
                      newUser0\<lparr>classAssigned := Some ''B.Tech 6th Sem (Default)''\<rparr>
                    else newUser0)
             in (st\<lparr>users := users st @ [newUser], session_user := Some newUser,
                    console := console st @
                      [ConsoleLog (''New user signed up: '' @ name' @ '' ('' @ roll' @ '') as '' @ role')]\<rparr>,
                 Redirect (dashboard role')))"

subsection \<open>The guarded routes\<close>


definition get_library :: handler where
  "get_library =
     checkRole [''student'', ''librarian'', ''admin'']
       (\<lambda>st b. (st, Render 200 ''library''
                       [(''page'', Str ''library''), (''libraryData'', Library libraryData)]))"

definition get_guidance :: handler where
  "get_guidance =
     checkRole [''student'', ''teacher'', ''admin'']
       (\<lambda>st b. (st, Render 200 ''guidance'' [(''page'', Str ''guidance'')]))"

definition get_admin_dashboard :: handler where
  "get_admin_dashboard =
     checkRole [''admin'']
       (\<lambda>st b. (st, Render 200 ''admin/dashboard''
                       [(''page'', Str ''admin''), (''foundStudent'', Null), (''searchQuery'', Null)]))"

definition post_admin_search :: "(string \<Rightarrow> string) \<Rightarrow> handler" where
  "post_admin_search xss =
     checkRole [''admin'']
       (\<lambda>st b.
          let sanitizedRoll = sanitize xss (b ''roll'') '''';
              student = List.find (\<lambda>u. roll u = sanitizedRoll \<and> role u = ''student'') (users st)
          in (st, Render 200 ''admin/dashboard''
                    [(''page'', Str ''admin''), (''foundStudent'', user_or_undefined student),
                     (''searchQuery'', str_or_undefined (b ''roll''))]))"

definition get_librarian_control :: handler where
  "get_librarian_control =
     checkRole [''librarian'']
       (\<lambda>st b. (st, Render 200 ''librarian/control''
                       [(''page'', Str ''librarian''), (''libraryData'', Library libraryData),
                        (''studentIssueRecords'', Null), (''searchRoll'', Null)]))"

definition post_librarian_search_student :: "(string \<Rightarrow> string) \<Rightarrow> handler" where
  "post_librarian_search_student xss =
     checkRole [''librarian'']
       (\<lambda>st b.
          let sanitizedRoll = sanitize xss (b ''roll'') '''';
              student = List.find (\<lambda>u. roll u = sanitizedRoll \<and> role u = ''student'') (users st);
              issueRecords =
                (case student of
                   None \<Rightarrow> Null
                 | Some s \<Rightarrow>
                     Issue \<lparr>studentName = name s, studentRoll = roll s,
                            books = (if roll s = ''22111234'' then issuedBooks libraryData else [])\<rparr>)
          in (st, Render 200 ''librarian/control''
                    [(''page'', Str ''librarian''), (''libraryData'', Library libraryData),
                     (''studentIssueRecords'', issueRecords),
                     (''searchRoll'', str_or_undefined (b ''roll''))]))"

definition get_teacher_class :: handler where
  "get_teacher_class =
     checkRole [''teacher'']
       (\<lambda>st b.
          case session_user st of
            None \<Rightarrow> (st, Throw (TypeError ''Cannot read properties of undefined''))
          | Some teacher \<Rightarrow>
              let assignedSemester = 6;
                  classStudents =
                    filter (\<lambda>u. role u = ''student'' \<and> semester u = Some assignedSemester) (users st)
              in (st, Render 200 ''teacher/class''
                        [(''page'', Str ''teacher''), (''teacher'', User teacher),
                         (''classStudents'', Users classStudents),
                         (''assignedClass'', str_or_undefined (classAssigned teacher))]))"

subsection \<open>The chat endpoint\<close>

text \<open>
  The completion service is outside the repository: \<open>openai.chat.completions.create\<close> is
  a parameter that maps the request to what the awaited promise settles to, a rejection
  or a completion object. The object is whatever came back: \<open>choices\<close>, the first
  choice's \<open>message\<close> and its \<open>content\<close> may be missing, and reading a property of a
  missing one throws a \<open>TypeError\<close> inside the \<open>try\<close> block.
\<close>

record chat_request =
  model :: string
  messages :: "(string \<times> string) list"

record message =
  content :: val

record choice =
  message :: "message option"

record completion =
  choices :: "choice list option"

datatype upstream = Resolves completion | Rejects exn

definition system_prompt :: string where
  "system_prompt = ''You are an expert Career Development Counselor for college students. Your role is to provide personalized roadmaps, detailed guidance, necessary resources.''"

text \<open>The apology; its dash is U+2014, three bytes in UTF-8.\<close>

definition apology :: string where
  "apology = ''Sorry '' @ [CHR 0xE2, CHR 0x80, CHR 0x94] @ '' something went wrong.''"

text \<open>\<open>completion.choices[0].message.content\<close>\<close>

definition first_content :: "completion \<Rightarrow> exn + val" where
  "first_content c =
     (case choices c of
        None \<Rightarrow> Inl (TypeError ''Cannot read properties of undefined (reading '0')'')
      | Some [] \<Rightarrow> Inl (TypeError ''Cannot read properties of undefined (reading 'message')'')
      | Some (ch # _) \<Rightarrow>
          (case message ch of
             None \<Rightarrow> Inl (TypeError ''Cannot read properties of undefined (reading 'content')'')
           | Some m \<Rightarrow> Inr (content m)))"

text \<open>
  \<open>POST /chat\<close> is called with a JSON body, and \<open>express.json()\<close> hands every JSON value
  through: on this route the \<open>message\<close> field is a JSON value, not only a text.
\<close>

datatype json =
    JNull
  | JBool bool
  | JNum rat
  | JStr string
  | JArr "json list"
  | JObj "(string \<times> json) list"

type_synonym json_body = "string \<rightharpoonup> json"

text \<open>What \<open>v ? _ : _\<close> tests: \<open>null\<close>, \<open>false\<close>, 0 and the empty string are falsy.\<close>

fun truthy :: "json \<Rightarrow> bool" where
  "truthy JNull = False"
| "truthy (JBool b) = b"
| "truthy (JNum n) = (n \<noteq> 0)"
| "truthy (JStr s) = (s \<noteq> [])"
| "truthy (JArr xs) = True"
| "truthy (JObj kvs) = True"

text \<open>
  Line 370, \<open>req.body.message ? xss(req.body.message.trim()) : ''\<close>, which stands before
  the \<open>try\<close> block. Only a string has a \<open>trim\<close> method: on any other truthy value
  \<open>req.body.message.trim\<close> is \<open>undefined\<close> (or, on an object with such a key, not a
  function) and the call throws.
\<close>

definition user_message :: "(string \<Rightarrow> string) \<Rightarrow> json option \<Rightarrow> exn + string" where
  "user_message xss v =
     (case v of
        None \<Rightarrow> Inr ''''
      | Some j \<Rightarrow>
          if truthy j then
            (case j of
               JStr s \<Rightarrow> Inr (xss (trim s))
             | _ \<Rightarrow> Inl (TypeError ''req.body.message.trim is not a function''))
          else Inr '''')"

definition post_chat ::
  "(string \<Rightarrow> string) \<Rightarrow> (chat_request \<Rightarrow> upstream) \<Rightarrow> state \<Rightarrow> json_body \<Rightarrow> state \<times> response"
where
  "post_chat xss create st b =
     (case user_message xss (b ''message'') of
        Inl err \<Rightarrow> (st, Throw err)
      | Inr userMsg \<Rightarrow>
          let tried =
                (case create \<lparr>model = ''gpt-3.5-turbo'',
                              messages = [(''system'', system_prompt), (''user'', userMsg)]\<rparr> of
                   Rejects err \<Rightarrow> Inl err
                 | Resolves completion \<Rightarrow> first_content completion)
          in case tried of
               Inr reply \<Rightarrow> (st, Json 200 [(''reply'', reply)])
             | Inl err \<Rightarrow>
                 (st\<lparr>console := console st @ [ConsoleError ''OpenAI error:'' err]\<rparr>,
                  Json 500 [(''reply'', Str apology)]))"

section \<open>Properties of the role guard\<close>

lemma join_mem_sublist: "r \<in> set rs \<Longrightarrow> sublist r (join sep rs)"
proof (induction sep rs rule: join.induct)
  case (1 sep)
  then show ?case by simp
next
  case (2 sep x)
  then show ?case by simp
next
  case (3 sep x y ys)
  show ?case
  proof (cases "r = x")
    case True
    then show ?thesis by simp
  next
    case False
    with 3 have "sublist r (join sep (y # ys))" by auto
    then obtain ps ss where "join sep (y # ys) = ps @ r @ ss"
      by (auto simp: sublist_def)
    then have "join sep (x # y # ys) = (x @ sep @ ps) @ r @ ss" by simp
    then show ?thesis unfolding sublist_def by blast
  qed
qed

lemma sublist_between: "sublist r m \<Longrightarrow> sublist r (p @ m @ s)"
proof -
  assume "sublist r m"
  then obtain ps ss where "m = ps @ r @ ss" by (auto simp: sublist_def)
  then have "p @ m @ s = (p @ ps) @ r @ (ss @ s)" by simp
  then show ?thesis unfolding sublist_def by blast
qed

text \<open>
  C1. A route is protected when it is registered as \<open>checkRole R next\<close>, whatever the
  role list \<open>R\<close> and the handler \<open>next\<close> are. With no user in the session the answer is a
  redirect to \<open>/login\<close>; with a user whose role is not in \<open>R\<close> it is status 403 and the
  view \<open>home\<close> with an error message in which every role of \<open>R\<close> occurs. In both cases
  the answer and the state do not depend on \<open>next\<close>: the handler is not run. With a user
  whose role is in \<open>R\<close> the request is answered by \<open>next\<close>.
\<close>

theorem checkRole_guard:
  "(session_user st = None \<longrightarrow> checkRole R next st b = (st, Redirect ''/login'')) \<and>
   (\<forall>u. session_user st = Some u \<and> role u \<notin> set R \<longrightarrow>
      checkRole R next st b =
        (st, Render 403 ''home''
               [(''page'', Str ''home''),
                (''error'', Str (''Access Denied: You do not have **'' @ join '' or '' R @
                                 ''** permissions for this page.''))]) \<and>
      (\<forall>r \<in> set R. sublist r (''Access Denied: You do not have **'' @ join '' or '' R @
                                 ''** permissions for this page.''))) \<and>
   (\<forall>u. session_user st = Some u \<and> role u \<in> set R \<longrightarrow> checkRole R next st b = next st b)"
proof (intro conjI allI impI ballI)
  assume "session_user st = None"
  then show "checkRole R next st b = (st, Redirect ''/login'')"
    by (simp add: checkRole_def)
next
  fix u assume "session_user st = Some u \<and> role u \<notin> set R"
  then show "checkRole R next st b =
        (st, Render 403 ''home''
               [(''page'', Str ''home''),
                (''error'', Str (''Access Denied: You do not have **'' @ join '' or '' R @
                                 ''** permissions for this page.''))])"
    by (simp add: checkRole_def)
next
  fix u r assume "r \<in> set R"
  then have "sublist r (join '' or '' R)" by (rule join_mem_sublist)
  then show "sublist r (''Access Denied: You do not have **'' @ join '' or '' R @
                                 ''** permissions for this page.'')"
    by (rule sublist_between)
next
  fix u assume "session_user st = Some u \<and> role u \<in> set R"
  then show "checkRole R next st b = next st b"
    by (simp add: checkRole_def)
qed

text \<open>
  The guard on two of the routes: \<open>GET /admin/dashboard\<close> without a session and with the
  student of the fixtures, \<open>GET /library\<close> with the librarian of the fixtures.
\<close>

theorem checkRole_guard_witness:
  "get_admin_dashboard \<lparr>users = users_init, session_user = None, console = []\<rparr> Map.empty =
     (\<lparr>users = users_init, session_user = None, console = []\<rparr>, Redirect ''/login'') \<and>
   role john_doe \<notin> set [''admin''] \<and>
   get_admin_dashboard \<lparr>users = users_init, session_user = Some john_doe, console = []\<rparr> Map.empty =
     (\<lparr>users = users_init, session_user = Some john_doe, console = []\<rparr>,
      Render 403 ''home''
        [(''page'', Str ''home''),
         (''error'', Str ''Access Denied: You do not have **admin** permissions for this page.'')]) \<and>
   sublist ''admin'' (''Access Denied: You do not have **'' @ join '' or '' [''admin''] @
                      ''** permissions for this page.'') \<and>
   role lib001 \<in> set [''student'', ''librarian'', ''admin''] \<and>
   get_library \<lparr>users = users_init, session_user = Some lib001, console = []\<rparr> Map.empty =
     (\<lparr>users = users_init, session_user = Some lib001, console = []\<rparr>,
      Render 200 ''library'' [(''page'', Str ''library''), (''libraryData'', Library libraryData)])"
proof -
  let ?adm = "\<lambda>st b. (st, Render 200 ''admin/dashboard''
                [(''page'', Str ''admin''), (''foundStudent'', Null), (''searchQuery'', Null)])"
  let ?lib = "\<lambda>st b. (st, Render 200 ''library''
                [(''page'', Str ''library''), (''libraryData'', Library libraryData)])"
  let ?s0 = "\<lparr>users = users_init, session_user = None, console = []\<rparr>"
  let ?s1 = "\<lparr>users = users_init, session_user = Some john_doe, console = []\<rparr>"
  let ?s2 = "\<lparr>users = users_init, session_user = Some lib001, console = []\<rparr>"
  have a: "role john_doe \<notin> set [''admin'']"
    by (simp add: john_doe_def)
  have b: "role lib001 \<in> set [''student'', ''librarian'', ''admin'']"
    by (simp add: lib001_def)
  have 1: "get_admin_dashboard ?s0 Map.empty = (?s0, Redirect ''/login'')"
    using checkRole_guard [of ?s0 "[''admin'']" ?adm Map.empty, THEN conjunct1]
    by (simp add: get_admin_dashboard_def)
  have 2: "get_admin_dashboard ?s1 Map.empty =
      (?s1, Render 403 ''home''
        [(''page'', Str ''home''),
         (''error'', Str ''Access Denied: You do not have **admin** permissions for this page.'')])"
    using a checkRole_guard [of ?s1 "[''admin'']" ?adm Map.empty,
        THEN conjunct2, THEN conjunct1, rule_format, of john_doe, THEN conjunct1]
    by (simp add: get_admin_dashboard_def)
  have 3: "sublist ''admin'' (''Access Denied: You do not have **'' @ join '' or '' [''admin''] @
                      ''** permissions for this page.'')"
    by (rule checkRole_guard [of ?s1 "[''admin'']" ?adm Map.empty,
        THEN conjunct2, THEN conjunct1, rule_format, of john_doe, THEN conjunct2, rule_format])
      (simp_all add: a [simplified])
  have 4: "get_library ?s2 Map.empty =
      (?s2, Render 200 ''library'' [(''page'', Str ''library''), (''libraryData'', Library libraryData)])"
    using b checkRole_guard [of ?s2 "[''student'', ''librarian'', ''admin'']" ?lib Map.empty,
        THEN conjunct2, THEN conjunct2, rule_format, of lib001]
    by (simp add: get_library_def)
  show ?thesis
    by (intro conjI) (rule 1 a 2 3 b 4)+
qed

section \<open>Properties of login\<close>

lemma trim_22111234: "trim ''22111234'' = ''22111234''"
  by code_simp


lemma post_login_None:
  assumes "List.find (\<lambda>u. roll u = sanitize xss (b ''roll'') '''' \<and>
                           password u = sanitize xss (b ''password'') '''') (users st) = None"
  shows "post_login xss st b =
     (st\<lparr>console := console st @
          [ConsoleLog (''Attempting login with Roll: ['' @ sanitize xss (b ''roll'') '''' @ '']'')]\<rparr>,
      Render 200 ''login'' [(''page'', Str ''login''), (''error'', Str ''Invalid roll or password'')])"
  using assms by (simp add: post_login_def Let_def)





text \<open>
  C8. Two failing logins on the same collection, one with a roll that some record has
  but with a password that no record with this roll has, one with a roll that no record
  has, get the same response: the login view with the one message
  \<open>Invalid roll or password\<close>. Only the console line, which is not sent, names the roll.
\<close>

theorem post_login_failures_same_response:
  "(\<exists>u \<in> set (users st). roll u = sanitize xss (b1 ''roll'') '''') \<and>
   (\<forall>u \<in> set (users st). roll u = sanitize xss (b1 ''roll'') '''' \<longrightarrow>
       password u \<noteq> sanitize xss (b1 ''password'') '''') \<and>
   sanitize xss (b2 ''roll'') '''' \<notin> roll ` set (users st) \<longrightarrow>
     snd (post_login xss st b1) = snd (post_login xss st b2) \<and>
     snd (post_login xss st b1) =
       Render 200 ''login'' [(''page'', Str ''login''), (''error'', Str ''Invalid roll or password'')]"
  (is "?H \<longrightarrow> ?C")
proof (rule impI)
  assume a: ?H
  have "List.find (\<lambda>u. roll u = sanitize xss (b1 ''roll'') '''' \<and>
                         password u = sanitize xss (b1 ''password'') '''') (users st) = None"
    using a unfolding find_None_iff by blast
  then have 1: "snd (post_login xss st b1) =
      Render 200 ''login'' [(''page'', Str ''login''), (''error'', Str ''Invalid roll or password'')]"
    by (simp add: post_login_None)
  have "List.find (\<lambda>u. roll u = sanitize xss (b2 ''roll'') '''' \<and>
                         password u = sanitize xss (b2 ''password'') '''') (users st) = None"
    using a unfolding find_None_iff by (metis imageI)
  then have 2: "snd (post_login xss st b2) =
      Render 200 ''login'' [(''page'', Str ''login''), (''error'', Str ''Invalid roll or password'')]"
    by (simp add: post_login_None)
  show ?C
    using 1 2 by simp
qed

text \<open>
  The fixture roll with another password against a roll that no fixture has: the same
  response, and two different console lines.
\<close>

theorem post_login_failures_same_response_witness:
  "snd (post_login escapeHtml \<lparr>users = users_init, session_user = None, console = []\<rparr>
          [''roll'' \<mapsto> ''22111234'', ''password'' \<mapsto> ''letmein'']) =
   snd (post_login escapeHtml \<lparr>users = users_init, session_user = None, console = []\<rparr>
          [''roll'' \<mapsto> ''nobody'', ''password'' \<mapsto> ''letmein'']) \<and>
   console (fst (post_login escapeHtml \<lparr>users = users_init, session_user = None, console = []\<rparr>
          [''roll'' \<mapsto> ''22111234'', ''password'' \<mapsto> ''letmein''])) \<noteq>
   console (fst (post_login escapeHtml \<lparr>users = users_init, session_user = None, console = []\<rparr>
          [''roll'' \<mapsto> ''nobody'', ''password'' \<mapsto> ''letmein'']))"
proof -
  let ?s = "\<lparr>users = users_init, session_user = None, console = []\<rparr>"
  let ?b1 = "[''roll'' \<mapsto> ''22111234'', ''password'' \<mapsto> ''letmein'']"
  let ?b2 = "[''roll'' \<mapsto> ''nobody'', ''password'' \<mapsto> ''letmein'']"
  have s1: "sanitize escapeHtml (?b1 ''roll'') '''' = ''22111234''"
    by code_simp
  have s2: "sanitize escapeHtml (?b1 ''password'') '''' = ''letmein''"
    by code_simp
  have s3: "sanitize escapeHtml (?b2 ''roll'') '''' = ''nobody''"
    by code_simp
  have s4: "sanitize escapeHtml (?b2 ''password'') '''' = ''letmein''"
    by code_simp
  have h: "(\<exists>u \<in> set (users ?s). roll u = ''22111234'') \<and>
     (\<forall>u \<in> set (users ?s). roll u = ''22111234'' \<longrightarrow> password u \<noteq> ''letmein'') \<and>
     ''nobody'' \<notin> roll ` set (users ?s)"
    by (simp add: users_init_def john_doe_def admin001_def lib001_def teacher101_def)
  have 1: "snd (post_login escapeHtml ?s ?b1) = snd (post_login escapeHtml ?s ?b2)"
    using post_login_failures_same_response [of ?s escapeHtml ?b1 ?b2] h
    unfolding s1 s2 s3 by blast
  have f1: "List.find (\<lambda>u. roll u = ''22111234'' \<and> password u = ''letmein'') (users ?s) = None"
    by (simp add: users_init_def john_doe_def admin001_def lib001_def teacher101_def)
  have f2: "List.find (\<lambda>u. roll u = ''nobody'' \<and> password u = ''letmein'') (users ?s) = None"
    by (simp add: users_init_def john_doe_def admin001_def lib001_def teacher101_def)
  have 2: "console (fst (post_login escapeHtml ?s ?b1)) \<noteq> console (fst (post_login escapeHtml ?s ?b2))"
    using f1 f2 unfolding post_login_def Let_def s1 s2 s3 s4 by simp
  show ?thesis by (intro conjI) (rule 1 2)+
qed

section \<open>Properties of sign-up\<close>

lemma find_roll_None: "List.find (\<lambda>u. roll u = r) us = None \<longleftrightarrow> r \<notin> roll ` set us"
  by (auto simp: find_None_iff)

lemma find_roll_Some: "r \<in> roll ` set us \<Longrightarrow> \<exists>e. List.find (\<lambda>u. roll u = r) us = Some e"
  by (cases "List.find (\<lambda>u. roll u = r) us") (auto simp: find_roll_None)


lemma post_signup_existing:
  assumes "sanitize xss (b ''roll'') '''' \<in> roll ` set (users st)"
  shows "post_signup xss st b =
     (st, Render 200 ''signup-form''
            [(''page'', Str ''signup''), (''selectedRole'', Str (sanitize xss (b ''role'') ''student'')),
             (''error'', Str ''Roll number already registered.'')])"
proof -
  obtain e where "List.find (\<lambda>u. roll u = sanitize xss (b ''roll'') '''') (users st) = Some e"
    using find_roll_Some [OF assms] by blast
  then show ?thesis by (simp add: post_signup_def Let_def)
qed

lemma post_signup_fresh:
  assumes "sanitize xss (b ''roll'') '''' \<notin> roll ` set (users st)"
  shows "\<exists>u. post_signup xss st b =
           (st\<lparr>users := users st @ [u], session_user := Some u,
               console := console st @
                 [ConsoleLog (''New user signed up: '' @ sanitize xss (b ''name'') '''' @ '' ('' @
                    sanitize xss (b ''roll'') '''' @ '') as '' @ sanitize xss (b ''role'') ''student'')]\<rparr>,
            Redirect (dashboard (sanitize xss (b ''role'') ''student''))) \<and>
         name u = sanitize xss (b ''name'') '''' \<and>
         roll u = sanitize xss (b ''roll'') '''' \<and>
         password u = sanitize xss (b ''password'') '''' \<and>
         role u = sanitize xss (b ''role'') ''student'' \<and>
         profilePic u = ''/assets/profile-placeholder.png'' \<and>
         (role u = ''student'' \<longrightarrow>
            universityRoll u = Some (sanitize xss (b ''universityRoll'') '''') \<and>
            semester u = Some 1 \<and> college u = Some ''N/A'' \<and>
            performance u = Some [] \<and> reportCards u = Some [] \<and> classAssigned u = None) \<and>
         (role u = ''teacher'' \<longrightarrow>
            classAssigned u = Some ''B.Tech 6th Sem (Default)'' \<and> semester u = None)"
proof -
  let ?r = "sanitize xss (b ''role'') ''student''"
  let ?u0 = "\<lparr>roll = sanitize xss (b ''roll'') '''', password = sanitize xss (b ''password'') '''',
              name = sanitize xss (b ''name'') '''', role = ?r,
              profilePic = ''/assets/profile-placeholder.png'',
              universityRoll = None, semester = None, college = None,
              performance = None, reportCards = None, classAssigned = None\<rparr>"
  let ?u = "if ?r = ''student'' then
              ?u0\<lparr>universityRoll := Some (sanitize xss (b ''universityRoll'') ''''),
                   semester := Some 1, college := Some ''N/A'',
                   performance := Some [], reportCards := Some []\<rparr>
            else if ?r = ''teacher'' then ?u0\<lparr>classAssigned := Some ''B.Tech 6th Sem (Default)''\<rparr>
            else ?u0"
  have f: "List.find (\<lambda>u. roll u = sanitize xss (b ''roll'') '''') (users st) = None"
    using assms by (simp add: find_roll_None)
  have e: "post_signup xss st b =
           (st\<lparr>users := users st @ [?u], session_user := Some ?u,
               console := console st @
                 [ConsoleLog (''New user signed up: '' @ sanitize xss (b ''name'') '''' @ '' ('' @
                    sanitize xss (b ''roll'') '''' @ '') as '' @ ?r)]\<rparr>,
            Redirect (dashboard ?r))"
    unfolding post_signup_def Let_def f by simp
  show ?thesis
    unfolding e by (rule exI [of _ ?u]) simp
qed

text \<open>
  Sign-up keeps the rolls of the collection pairwise distinct, whatever the body is.
\<close>

lemma post_signup_distinct_rolls:
  assumes "distinct (map roll (users st))"
  shows "distinct (map roll (users (fst (post_signup xss st b))))"
proof (cases "sanitize xss (b ''roll'') '''' \<in> roll ` set (users st)")
  case True
  then show ?thesis using assms by (simp add: post_signup_existing)
next
  case False
  from post_signup_fresh [of xss b st] False obtain u where
    "users (fst (post_signup xss st b)) = users st @ [u]" "roll u = sanitize xss (b ''roll'') ''''"
    by force
  with False assms show ?thesis by simp
qed










section \<open>Properties of the dashboards\<close>

lemma find_student_fixture:
  "List.find (\<lambda>u. roll u = ''22111234'' \<and> role u = ''student'') (users_init @ added) = Some john_doe"
  by (simp add: users_init_def john_doe_def)

lemma issuedBooks_fixture:
  "issuedBooks libraryData =
     [\<lparr>title = ''DBMS'', issueDate = ''2025-11-10'', returnDate = ''2025-12-10''\<rparr>,
      \<lparr>title = ''Operating Systems'', issueDate = ''2025-11-15'', returnDate = ''2025-12-15''\<rparr>]"
  by (simp add: libraryData_def)

lemma post_librarian_search_student_authorised:
  assumes "session_user st = Some l" and "role l = ''librarian''"
  shows "post_librarian_search_student xss st b =
     (st, Render 200 ''librarian/control''
            [(''page'', Str ''librarian''), (''libraryData'', Library libraryData),
             (''studentIssueRecords'',
                (case List.find (\<lambda>u. roll u = sanitize xss (b ''roll'') '''' \<and> role u = ''student'')
                        (users st) of
                   None \<Rightarrow> Null
                 | Some s \<Rightarrow>
                     Issue \<lparr>studentName = name s, studentRoll = roll s,
                            books = (if roll s = ''22111234'' then issuedBooks libraryData else [])\<rparr>)),
             (''searchRoll'', str_or_undefined (b ''roll''))])"
  using assms by (simp add: post_librarian_search_student_def checkRole_def Let_def)

text \<open>
  C6. For a session whose user is a librarian, \<open>POST /librarian/search-student\<close>
  renders the control view with these issue records: for roll \<open>22111234\<close>, on a
  collection that starts with the fixtures, the record of John Doe with the two issued
  books of the fixtures; for any other roll that a student record has, the record of the
  first such student with an empty list of books; for a roll that no student record
  has, \<open>null\<close>.
\<close>

theorem post_librarian_search_student_records:
  "session_user st = Some l \<and> role l = ''librarian'' \<longrightarrow>
     (xss ''22111234'' = ''22111234'' \<and> b ''roll'' = Some ''22111234'' \<and>
      users st = users_init @ added \<longrightarrow>
        post_librarian_search_student xss st b =
          (st, Render 200 ''librarian/control''
                 [(''page'', Str ''librarian''), (''libraryData'', Library libraryData),
                  (''studentIssueRecords'',
                     Issue \<lparr>studentName = ''John Doe'', studentRoll = ''22111234'',
                            books =
                              [\<lparr>title = ''DBMS'', issueDate = ''2025-11-10'',
                                returnDate = ''2025-12-10''\<rparr>,
                               \<lparr>title = ''Operating Systems'', issueDate = ''2025-11-15'',
                                returnDate = ''2025-12-15''\<rparr>]\<rparr>),
                  (''searchRoll'', Str ''22111234'')])) \<and>
     (sanitize xss (b ''roll'') '''' \<noteq> ''22111234'' \<and>
      (\<exists>u \<in> set (users st). roll u = sanitize xss (b ''roll'') '''' \<and> role u = ''student'') \<longrightarrow>
        (\<exists>s \<in> set (users st). roll s = sanitize xss (b ''roll'') '''' \<and> role s = ''student'' \<and>
           post_librarian_search_student xss st b =
             (st, Render 200 ''librarian/control''
                    [(''page'', Str ''librarian''), (''libraryData'', Library libraryData),
                     (''studentIssueRecords'',
                        Issue \<lparr>studentName = name s, studentRoll = sanitize xss (b ''roll'') '''',
                               books = []\<rparr>),
                     (''searchRoll'', str_or_undefined (b ''roll''))]))) \<and>
     (\<not> (\<exists>u \<in> set (users st). roll u = sanitize xss (b ''roll'') '''' \<and> role u = ''student'') \<longrightarrow>
        post_librarian_search_student xss st b =
          (st, Render 200 ''librarian/control''
                 [(''page'', Str ''librarian''), (''libraryData'', Library libraryData),
                  (''studentIssueRecords'', Null),
                  (''searchRoll'', str_or_undefined (b ''roll''))]))"
  (is "?H \<longrightarrow> (?H1 \<longrightarrow> ?C1) \<and> (?H2 \<longrightarrow> ?C2) \<and> (?H3 \<longrightarrow> ?C3)")
proof (rule impI)
  assume a: ?H
  note e = post_librarian_search_student_authorised [of st l xss b, OF conjunct1 [OF a] conjunct2 [OF a]]
  have 1: "?H1 \<longrightarrow> ?C1"
  proof (rule impI)
    assume h: ?H1
    have r: "sanitize xss (b ''roll'') '''' = ''22111234''"
      using h by (simp add: sanitize_def trim_22111234)
    have f: "List.find (\<lambda>u. roll u = ''22111234'' \<and> role u = ''student'') (users st) = Some john_doe"
      using h by (simp add: find_student_fixture)
    have j: "name john_doe = ''John Doe''" "roll john_doe = ''22111234''"
      by (simp_all add: john_doe_def)
    show ?C1
      unfolding e r f using h by (simp add: j issuedBooks_fixture str_or_undefined_def)
  qed
  have 2: "?H2 \<longrightarrow> ?C2"
  proof (rule impI)
    assume h: ?H2
    then have "List.find (\<lambda>u. roll u = sanitize xss (b ''roll'') '''' \<and> role u = ''student'')
        (users st) \<noteq> None"
      unfolding find_None_iff by blast
    then obtain s where
      f: "List.find (\<lambda>u. roll u = sanitize xss (b ''roll'') '''' \<and> role u = ''student'')
            (users st) = Some s"
      by blast
    then have s: "s \<in> set (users st)" "roll s = sanitize xss (b ''roll'') ''''" "role s = ''student''"
      by (auto simp: find_Some_iff)
    have "post_librarian_search_student xss st b =
             (st, Render 200 ''librarian/control''
                    [(''page'', Str ''librarian''), (''libraryData'', Library libraryData),
                     (''studentIssueRecords'',
                        Issue \<lparr>studentName = name s, studentRoll = sanitize xss (b ''roll'') '''',
                               books = []\<rparr>),
                     (''searchRoll'', str_or_undefined (b ''roll''))])"
      unfolding e f using h s(2) by simp
    with s show ?C2 by blast
  qed
  have 3: "?H3 \<longrightarrow> ?C3"
  proof (rule impI)
    assume h: ?H3
    then have f: "List.find (\<lambda>u. roll u = sanitize xss (b ''roll'') '''' \<and> role u = ''student'')
        (users st) = None"
      unfolding find_None_iff by blast
    show ?C3
      unfolding e f by simp
  qed
  show "(?H1 \<longrightarrow> ?C1) \<and> (?H2 \<longrightarrow> ?C2) \<and> (?H3 \<longrightarrow> ?C3)"
    by (intro conjI) (rule 1 2 3)+
qed

text \<open>
  The librarian of the fixtures searches, on the fixtures followed by one student who
  signed up: the fixture roll, the roll of the new student, and the roll of the admin.
\<close>

theorem post_librarian_search_student_records_witness:
  "role lib001 = ''librarian'' \<and>
   snd (post_librarian_search_student escapeHtml
     \<lparr>users = users_init @
        [\<lparr>roll = ''23110001'', password = ''pw'', name = ''Asha'', role = ''student'',
          profilePic = ''/assets/profile-placeholder.png'', universityRoll = Some [],
          semester = Some 1, college = Some ''N/A'', performance = Some [],
          reportCards = Some [], classAssigned = None\<rparr>],
       session_user = Some lib001, console = []\<rparr> [''roll'' \<mapsto> ''22111234'']) =
     Render 200 ''librarian/control''
       [(''page'', Str ''librarian''), (''libraryData'', Library libraryData),
        (''studentIssueRecords'',
           Issue \<lparr>studentName = ''John Doe'', studentRoll = ''22111234'',
                  books =
                    [\<lparr>title = ''DBMS'', issueDate = ''2025-11-10'', returnDate = ''2025-12-10''\<rparr>,
                     \<lparr>title = ''Operating Systems'', issueDate = ''2025-11-15'',
                      returnDate = ''2025-12-15''\<rparr>]\<rparr>),
        (''searchRoll'', Str ''22111234'')] \<and>
   snd (post_librarian_search_student escapeHtml
     \<lparr>users = users_init @
        [\<lparr>roll = ''23110001'', password = ''pw'', name = ''Asha'', role = ''student'',
          profilePic = ''/assets/profile-placeholder.png'', universityRoll = Some [],
          semester = Some 1, college = Some ''N/A'', performance = Some [],
          reportCards = Some [], classAssigned = None\<rparr>],
       session_user = Some lib001, console = []\<rparr> [''roll'' \<mapsto> ''23110001'']) =
     Render 200 ''librarian/control''
       [(''page'', Str ''librarian''), (''libraryData'', Library libraryData),
        (''studentIssueRecords'',
           Issue \<lparr>studentName = ''Asha'', studentRoll = ''23110001'', books = []\<rparr>),
        (''searchRoll'', Str ''23110001'')] \<and>
   snd (post_librarian_search_student escapeHtml
     \<lparr>users = users_init @
        [\<lparr>roll = ''23110001'', password = ''pw'', name = ''Asha'', role = ''student'',
          profilePic = ''/assets/profile-placeholder.png'', universityRoll = Some [],
          semester = Some 1, college = Some ''N/A'', performance = Some [],
          reportCards = Some [], classAssigned = None\<rparr>],
       session_user = Some lib001, console = []\<rparr> [''roll'' \<mapsto> ''admin001'']) =
     Render 200 ''librarian/control''
       [(''page'', Str ''librarian''), (''libraryData'', Library libraryData),
        (''studentIssueRecords'', Null), (''searchRoll'', Str ''admin001'')]"
proof -
  let ?asha = "\<lparr>roll = ''23110001'', password = ''pw'', name = ''Asha'', role = ''student'',
          profilePic = ''/assets/profile-placeholder.png'', universityRoll = Some [],
          semester = Some 1, college = Some ''N/A'', performance = Some [],
          reportCards = Some [], classAssigned = None\<rparr>"
  let ?s = "\<lparr>users = users_init @ [?asha], session_user = Some lib001, console = []\<rparr>"
  let ?b1 = "[''roll'' \<mapsto> ''22111234'']"
  let ?b2 = "[''roll'' \<mapsto> ''23110001'']"
  let ?b3 = "[''roll'' \<mapsto> ''admin001'']"
  have l: "session_user ?s = Some lib001 \<and> role lib001 = ''librarian''"
    by (simp add: lib001_def)
  note t = post_librarian_search_student_records [rule_format, OF l]
  have x: "escapeHtml ''22111234'' = ''22111234''"
    by simp
  have s2: "sanitize escapeHtml (?b2 ''roll'') '''' = ''23110001''"
    by code_simp
  have s3: "sanitize escapeHtml (?b3 ''roll'') '''' = ''admin001''"
    by code_simp
  have 1: "snd (post_librarian_search_student escapeHtml ?s ?b1) =
     Render 200 ''librarian/control''
       [(''page'', Str ''librarian''), (''libraryData'', Library libraryData),
        (''studentIssueRecords'',
           Issue \<lparr>studentName = ''John Doe'', studentRoll = ''22111234'',
                  books =
                    [\<lparr>title = ''DBMS'', issueDate = ''2025-11-10'', returnDate = ''2025-12-10''\<rparr>,
                     \<lparr>title = ''Operating Systems'', issueDate = ''2025-11-15'',
                      returnDate = ''2025-12-15''\<rparr>]\<rparr>),
        (''searchRoll'', Str ''22111234'')]"
    using t [THEN conjunct1, of escapeHtml ?b1 "[?asha]"] x by simp
  have h2: "sanitize escapeHtml (?b2 ''roll'') '''' \<noteq> ''22111234'' \<and>
      (\<exists>u \<in> set (users ?s). roll u = sanitize escapeHtml (?b2 ''roll'') '''' \<and> role u = ''student'')"
    unfolding s2 by simp
  have n2: "\<forall>s \<in> set (users ?s). roll s = ''23110001'' \<longrightarrow> name s = ''Asha''"
    by (simp add: users_init_def john_doe_def admin001_def lib001_def teacher101_def)
  have 2: "snd (post_librarian_search_student escapeHtml ?s ?b2) =
     Render 200 ''librarian/control''
       [(''page'', Str ''librarian''), (''libraryData'', Library libraryData),
        (''studentIssueRecords'',
           Issue \<lparr>studentName = ''Asha'', studentRoll = ''23110001'', books = []\<rparr>),
        (''searchRoll'', Str ''23110001'')]"
    using t [THEN conjunct2, THEN conjunct1, of escapeHtml ?b2, rule_format, OF h2] n2
    unfolding s2 by (auto simp: str_or_undefined_def)
  have h3: "\<not> (\<exists>u \<in> set (users ?s). roll u = sanitize escapeHtml (?b3 ''roll'') '''' \<and> role u = ''student'')"
    unfolding s3 by (simp add: users_init_def john_doe_def admin001_def lib001_def teacher101_def)
  have 3: "snd (post_librarian_search_student escapeHtml ?s ?b3) =
     Render 200 ''librarian/control''
       [(''page'', Str ''librarian''), (''libraryData'', Library libraryData),
        (''studentIssueRecords'', Null), (''searchRoll'', Str ''admin001'')]"
    using t [THEN conjunct2, THEN conjunct2, of escapeHtml ?b3, rule_format, OF h3]
    by (simp add: str_or_undefined_def)
  show ?thesis by (intro conjI) (rule conjunct2 [OF l] 1 2 3)+
qed

text \<open>
  C7. For a session whose user \<open>t\<close> is a teacher, \<open>GET /teacher/class\<close> renders the
  class view whose \<open>classStudents\<close> are the records of the collection with role
  \<open>student\<close> and \<open>semester\<close> 6, in the order of the collection. The list is the same
  whatever \<open>classAssigned\<close> of the teacher is: that field only comes back as the value
  \<open>assignedClass\<close> (and inside \<open>teacher\<close>).
\<close>

theorem get_teacher_class_students:
  "session_user st = Some t \<and> role t = ''teacher'' \<longrightarrow>
     get_teacher_class st b =
       (st, Render 200 ''teacher/class''
              [(''page'', Str ''teacher''), (''teacher'', User t),
               (''classStudents'',
                  Users (filter (\<lambda>u. role u = ''student'' \<and> semester u = Some 6) (users st))),
               (''assignedClass'', str_or_undefined (classAssigned t))]) \<and>
     subseq (filter (\<lambda>u. role u = ''student'' \<and> semester u = Some 6) (users st)) (users st) \<and>
     (\<forall>c. get_teacher_class (st\<lparr>session_user := Some (t\<lparr>classAssigned := c\<rparr>)\<rparr>) b =
        (st\<lparr>session_user := Some (t\<lparr>classAssigned := c\<rparr>)\<rparr>,
         Render 200 ''teacher/class''
           [(''page'', Str ''teacher''), (''teacher'', User (t\<lparr>classAssigned := c\<rparr>)),
            (''classStudents'',
               Users (filter (\<lambda>u. role u = ''student'' \<and> semester u = Some 6) (users st))),
            (''assignedClass'', str_or_undefined c)]))"
  by (simp add: get_teacher_class_def checkRole_def Let_def)

text \<open>
  The teacher of the fixtures, on the fixtures followed by a student of semester 1: the
  class is John Doe alone, also when the teacher is assigned another class.
\<close>

theorem get_teacher_class_students_witness:
  "role teacher101 = ''teacher'' \<and>
   snd (get_teacher_class
     \<lparr>users = users_init @
        [\<lparr>roll = ''23110001'', password = ''pw'', name = ''Asha'', role = ''student'',
          profilePic = ''/assets/profile-placeholder.png'', universityRoll = Some [],
          semester = Some 1, college = Some ''N/A'', performance = Some [],
          reportCards = Some [], classAssigned = None\<rparr>],
       session_user = Some teacher101, console = []\<rparr> Map.empty) =
     Render 200 ''teacher/class''
       [(''page'', Str ''teacher''), (''teacher'', User teacher101),
        (''classStudents'', Users [john_doe]),
        (''assignedClass'', Str ''B.Tech 6th Sem'')] \<and>
   snd (get_teacher_class
     \<lparr>users = users_init @
        [\<lparr>roll = ''23110001'', password = ''pw'', name = ''Asha'', role = ''student'',
          profilePic = ''/assets/profile-placeholder.png'', universityRoll = Some [],
          semester = Some 1, college = Some ''N/A'', performance = Some [],
          reportCards = Some [], classAssigned = None\<rparr>],
       session_user = Some (teacher101\<lparr>classAssigned := Some ''B.Tech 1st Sem''\<rparr>),
       console = []\<rparr> Map.empty) =
     Render 200 ''teacher/class''
       [(''page'', Str ''teacher''),
        (''teacher'', User (teacher101\<lparr>classAssigned := Some ''B.Tech 1st Sem''\<rparr>)),
        (''classStudents'', Users [john_doe]),
        (''assignedClass'', Str ''B.Tech 1st Sem'')]"
proof -
  let ?asha = "\<lparr>roll = ''23110001'', password = ''pw'', name = ''Asha'', role = ''student'',
          profilePic = ''/assets/profile-placeholder.png'', universityRoll = Some [],
          semester = Some 1, college = Some ''N/A'', performance = Some [],
          reportCards = Some [], classAssigned = None\<rparr>"
  let ?s = "\<lparr>users = users_init @ [?asha], session_user = Some teacher101, console = []\<rparr>"
  have l: "session_user ?s = Some teacher101 \<and> role teacher101 = ''teacher''"
    by (simp add: teacher101_def)
  have f: "filter (\<lambda>u. role u = ''student'' \<and> semester u = Some 6) (users ?s) = [john_doe]"
    by (simp add: users_init_def john_doe_def admin001_def lib001_def teacher101_def)
  have c: "classAssigned teacher101 = Some ''B.Tech 6th Sem''"
    by (simp add: teacher101_def)
  note t = get_teacher_class_students [of ?s teacher101 Map.empty, rule_format, OF l, unfolded f]
  have 1: "snd (get_teacher_class ?s Map.empty) =
     Render 200 ''teacher/class''
       [(''page'', Str ''teacher''), (''teacher'', User teacher101),
        (''classStudents'', Users [john_doe]),
        (''assignedClass'', Str ''B.Tech 6th Sem'')]"
    using t [THEN conjunct1] by (simp add: str_or_undefined_def c)
  have 2: "snd (get_teacher_class
       (?s\<lparr>session_user := Some (teacher101\<lparr>classAssigned := Some ''B.Tech 1st Sem''\<rparr>)\<rparr>)
       Map.empty) =
     Render 200 ''teacher/class''
       [(''page'', Str ''teacher''),
        (''teacher'', User (teacher101\<lparr>classAssigned := Some ''B.Tech 1st Sem''\<rparr>)),
        (''classStudents'', Users [john_doe]),
        (''assignedClass'', Str ''B.Tech 1st Sem'')]"
    using t [THEN conjunct2, THEN conjunct2, rule_format, of "Some ''B.Tech 1st Sem''"]
    by (simp add: str_or_undefined_def)
  have 3: "snd (get_teacher_class
     \<lparr>users = users_init @ [?asha],
       session_user = Some (teacher101\<lparr>classAssigned := Some ''B.Tech 1st Sem''\<rparr>),
       console = []\<rparr> Map.empty) =
     Render 200 ''teacher/class''
       [(''page'', Str ''teacher''),
        (''teacher'', User (teacher101\<lparr>classAssigned := Some ''B.Tech 1st Sem''\<rparr>)),
        (''classStudents'', Users [john_doe]),
        (''assignedClass'', Str ''B.Tech 1st Sem'')]"
    using 2 by simp
  show ?thesis by (intro conjI) (rule conjunct2 [OF l] 1 3)+
qed

section \<open>Properties of the chat endpoint\<close>

lemma user_message_text:
  assumes "v = None \<or> (\<exists>j. v = Some j \<and> \<not> truthy j) \<or> (\<exists>s. v = Some (JStr s))"
  shows "user_message xss v =
    Inr (case v of Some (JStr s) \<Rightarrow> if s = [] then [] else xss (trim s) | _ \<Rightarrow> [])"
  using assms by (auto simp: user_message_def split: json.splits)

text \<open>
  A truthy \<open>message\<close> that is not a string makes the handler throw before the \<open>try\<close>
  block, whatever the completion service would have done.
\<close>

lemma post_chat_throws:
  assumes "b ''message'' = Some j" and "truthy j" and "\<forall>s. j \<noteq> JStr s"
  shows "post_chat xss create st b =
    (st, Throw (TypeError ''req.body.message.trim is not a function''))"
  using assms by (cases j) (simp_all add: post_chat_def user_message_def)

text \<open>
  C9, as it holds. Let the \<open>message\<close> field be absent, falsy or a string, so that line
  370 gives a text \<open>userMsg\<close>, and let the request be the one \<open>POST /chat\<close> then sends. If
  the call rejects, the response is status 500 with the apology as \<open>reply\<close>, and the
  error goes to the console. If it resolves to a completion whose first choice has a
  message, the response is status 200 with that message's content as \<open>reply\<close>. If it
  resolves to a completion without choices, without a first choice or without a message
  in it, reading the content throws inside the \<open>try\<close> block and the response is the same
  500. The response is always one of the two, and the handler does not end by throwing;
  the collection and the session are untouched.
\<close>

theorem post_chat_text_outcomes:
  "b ''message'' = None \<or> (\<exists>j. b ''message'' = Some j \<and> \<not> truthy j) \<or>
   (\<exists>s. b ''message'' = Some (JStr s)) \<longrightarrow>
   (\<exists>userMsg.
      user_message xss (b ''message'') = Inr userMsg \<and>
      (\<forall>s. b ''message'' = Some (JStr s) \<and> s \<noteq> [] \<longrightarrow> userMsg = xss (trim s)) \<and>
      (\<forall>err. create \<lparr>model = ''gpt-3.5-turbo'',
                     messages = [(''system'', system_prompt), (''user'', userMsg)]\<rparr> =
                Rejects err \<longrightarrow>
         post_chat xss create st b =
           (st\<lparr>console := console st @ [ConsoleError ''OpenAI error:'' err]\<rparr>,
            Json 500 [(''reply'', Str apology)])) \<and>
      (\<forall>m rest. create \<lparr>model = ''gpt-3.5-turbo'',
                     messages = [(''system'', system_prompt), (''user'', userMsg)]\<rparr> =
                Resolves \<lparr>choices = Some (\<lparr>message = Some m\<rparr> # rest)\<rparr> \<longrightarrow>
         post_chat xss create st b = (st, Json 200 [(''reply'', content m)])) \<and>
      (\<forall>c. create \<lparr>model = ''gpt-3.5-turbo'',
                     messages = [(''system'', system_prompt), (''user'', userMsg)]\<rparr> =
                Resolves c \<and>
           (choices c = None \<or> choices c = Some [] \<or>
            (\<exists>rest. choices c = Some (\<lparr>message = None\<rparr> # rest))) \<longrightarrow>
         (\<exists>err. post_chat xss create st b =
           (st\<lparr>console := console st @ [ConsoleError ''OpenAI error:'' err]\<rparr>,
            Json 500 [(''reply'', Str apology)])))) \<and>
   ((\<exists>v. snd (post_chat xss create st b) = Json 200 [(''reply'', v)]) \<or>
    snd (post_chat xss create st b) = Json 500 [(''reply'', Str apology)]) \<and>
   (\<forall>e. snd (post_chat xss create st b) \<noteq> Throw e) \<and>
   users (fst (post_chat xss create st b)) = users st \<and>
   session_user (fst (post_chat xss create st b)) = session_user st"
  (is "?H \<longrightarrow> (\<exists>userMsg. ?U userMsg \<and> ?S userMsg \<and> ?A userMsg \<and> ?B userMsg \<and> ?C userMsg) \<and>
        ?D \<and> ?E \<and> ?F \<and> ?G")
proof (rule impI)
  assume h: ?H
  define t where
    "t = (case b ''message'' of Some (JStr s) \<Rightarrow> if s = [] then [] else xss (trim s) | _ \<Rightarrow> [])"
  let ?req = "\<lparr>model = ''gpt-3.5-turbo'',
               messages = [(''system'', system_prompt), (''user'', t)]\<rparr>"
  have U: "?U t"
    unfolding t_def using h by (rule user_message_text)
  have S: "?S t"
    by (simp add: t_def)
  have A: "?A t"
    by (simp add: post_chat_def U Let_def)
  have B: "?B t"
    by (simp add: post_chat_def U Let_def first_content_def)
  have C: "?C t"
    by (auto simp: post_chat_def U Let_def first_content_def)
  have D: ?D
    by (cases "create ?req")
       (auto simp: post_chat_def U Let_def first_content_def split: option.splits list.splits)
  have E: ?E
    using D by auto
  have F: ?F
    by (cases "create ?req")
       (auto simp: post_chat_def U Let_def first_content_def split: option.splits list.splits)
  have G: ?G
    by (cases "create ?req")
       (auto simp: post_chat_def U Let_def first_content_def split: option.splits list.splits)
  have X: "\<exists>userMsg. ?U userMsg \<and> ?S userMsg \<and> ?A userMsg \<and> ?B userMsg \<and> ?C userMsg"
    by (rule exI [of _ t], intro conjI) (rule U S A B C)+
  show "(\<exists>userMsg. ?U userMsg \<and> ?S userMsg \<and> ?A userMsg \<and> ?B userMsg \<and> ?C userMsg) \<and>
        ?D \<and> ?E \<and> ?F \<and> ?G"
    by (intro conjI) (rule X D E F G)+
qed

text \<open>
  A text message to three services: one that answers, one that rejects, and one that
  resolves to a completion with an empty list of choices.
\<close>

theorem post_chat_text_outcomes_witness:
  "post_chat escapeHtml
     (\<lambda>r. Resolves \<lparr>choices = Some [\<lparr>message = Some \<lparr>content = Str ''Learn SQL first.''\<rparr>\<rparr>]\<rparr>)
     \<lparr>users = users_init, session_user = None, console = []\<rparr> [''message'' \<mapsto> JStr ''hi''] =
     (\<lparr>users = users_init, session_user = None, console = []\<rparr>,
      Json 200 [(''reply'', Str ''Learn SQL first.'')]) \<and>
   post_chat escapeHtml (\<lambda>r. Rejects (Rejected ''429''))
     \<lparr>users = users_init, session_user = None, console = []\<rparr> [''message'' \<mapsto> JStr ''hi''] =
     (\<lparr>users = users_init, session_user = None,
       console = [ConsoleError ''OpenAI error:'' (Rejected ''429'')]\<rparr>,
      Json 500 [(''reply'', Str apology)]) \<and>
   snd (post_chat escapeHtml (\<lambda>r. Resolves \<lparr>choices = Some []\<rparr>)
     \<lparr>users = users_init, session_user = None, console = []\<rparr> [''message'' \<mapsto> JStr ''hi'']) =
     Json 500 [(''reply'', Str apology)]"
proof -
  let ?s = "\<lparr>users = users_init, session_user = None, console = []\<rparr>"
  let ?b = "[''message'' \<mapsto> JStr ''hi'']"
  let ?c1 = "\<lambda>r :: chat_request.
    Resolves \<lparr>choices = Some [\<lparr>message = Some \<lparr>content = Str ''Learn SQL first.''\<rparr>\<rparr>]\<rparr>"
  let ?c2 = "\<lambda>r :: chat_request. Rejects (Rejected ''429'')"
  let ?c3 = "\<lambda>r :: chat_request. Resolves \<lparr>choices = Some []\<rparr>"
  have h: "?b ''message'' = None \<or> (\<exists>j. ?b ''message'' = Some j \<and> \<not> truthy j) \<or>
     (\<exists>s. ?b ''message'' = Some (JStr s))"
    by simp
  have 1: "post_chat escapeHtml ?c1 ?s ?b = (?s, Json 200 [(''reply'', Str ''Learn SQL first.'')])"
    using post_chat_text_outcomes [of ?b escapeHtml ?c1 ?s, rule_format, OF h]
    by auto
  have 2: "post_chat escapeHtml ?c2 ?s ?b =
     (\<lparr>users = users_init, session_user = None,
       console = [ConsoleError ''OpenAI error:'' (Rejected ''429'')]\<rparr>,
      Json 500 [(''reply'', Str apology)])"
    using post_chat_text_outcomes [of ?b escapeHtml ?c2 ?s, rule_format, OF h]
    by auto
  have "\<exists>err. post_chat escapeHtml ?c3 ?s ?b =
        (?s\<lparr>console := console ?s @ [ConsoleError ''OpenAI error:'' err]\<rparr>,
         Json 500 [(''reply'', Str apology)])"
    using post_chat_text_outcomes [of ?b escapeHtml ?c3 ?s, rule_format, OF h]
    by auto
  then have 3: "snd (post_chat escapeHtml ?c3 ?s ?b) = Json 500 [(''reply'', Str apology)]"
    by auto
  show ?thesis by (intro conjI) (rule 1 2 3)+
qed

text \<open>
  C9, as it is written, fails on the JSON body \<open>{"message": 1}\<close>: with a service that
  would answer, the handler throws; the response is neither the reply nor the apology.
\<close>

theorem post_chat_outcomes_counterexample:
  "post_chat escapeHtml
     (\<lambda>r. Resolves \<lparr>choices = Some [\<lparr>message = Some \<lparr>content = Str ''Learn SQL first.''\<rparr>\<rparr>]\<rparr>)
     \<lparr>users = users_init, session_user = None, console = []\<rparr> [''message'' \<mapsto> JNum 1] =
     (\<lparr>users = users_init, session_user = None, console = []\<rparr>,
      Throw (TypeError ''req.body.message.trim is not a function'')) \<and>
   snd (post_chat escapeHtml
     (\<lambda>r. Resolves \<lparr>choices = Some [\<lparr>message = Some \<lparr>content = Str ''Learn SQL first.''\<rparr>\<rparr>]\<rparr>)
     \<lparr>users = users_init, session_user = None, console = []\<rparr> [''message'' \<mapsto> JNum 1]) \<noteq>
     Json 200 [(''reply'', Str ''Learn SQL first.'')] \<and>
   snd (post_chat escapeHtml
     (\<lambda>r. Resolves \<lparr>choices = Some [\<lparr>message = Some \<lparr>content = Str ''Learn SQL first.''\<rparr>\<rparr>]\<rparr>)
     \<lparr>users = users_init, session_user = None, console = []\<rparr> [''message'' \<mapsto> JNum 1]) \<noteq>
     Json 500 [(''reply'', Str apology)]"
  by (simp add: post_chat_def user_message_def)

end
